theory Spec2Isabelle
  imports Main
begin

section \<open>Data model of \<open>src/nodes/curator_graph.py\<close>\<close>

text \<open>
  The pydantic classes of the module become records with the fields of the class, in
  the order of the class. Field names are shared between the classes, as in the source,
  so selectors are written qualified (\<open>CuratorState.is_fraud\<close>).
  \<open>Optional[T] = None\<close> is \<open>T option\<close>. The two \<open>Optional[Dict]\<close> fields of
  \<open>CuratorState\<close> only ever receive \<open>model_dump()\<close> of the corresponding output
  model, a dictionary with exactly the fields of that model; they are typed by the
  record of that model.
\<close>

type_synonym datetime = nat

record PatternAnalysisOutput =
  is_fraud :: bool
  patterns :: "string list"
  reasoning :: string

record FraudTypeOutput =
  fraud_type :: string
  explanation :: string
  new_type_name :: "string option"

record FraudSummaryOutput =
  summary :: string
  warning_signs :: "string list"
  precautions :: "string list"

record FraudAnalysis =
  is_fraud :: bool
  fraud_type :: string
  explanation :: string
  similar_cases :: "string list"
  timestamp :: datetime
  new_type_name :: "string option"

record CuratorState =
  "text" :: string
  similar_cases :: "string list"
  pattern_analysis :: "PatternAnalysisOutput option"
  fraud_type :: "FraudTypeOutput option"
  final_summary :: "string option"
  is_fraud :: bool
  new_type_name :: "string option"

record TextInput =
  "text" :: string

subsection \<open>Exceptions\<close>

text \<open>
  Every \<open>raise\<close> of the module, and every exception of a callee that the module lets
  through, is a value of \<open>error\<close>; a function that can raise returns \<open>error + 'a\<close>.
  \<open>LLMError\<close> is whatever \<open>llm.invoke\<close> raises (a transport failure, or model output
  that the structured-output parser rejects), with its message. \<open>TypeError\<close> is Python's
  error for subscripting \<open>None\<close>. \<open>KeyError\<close> and \<open>GraphRecursionError\<close> belong to the
  graph runner.
\<close>

datatype error =
    LLMError string
  | ValueError string
  | TypeError string
  | KeyError string
  | GraphRecursionError

subsection \<open>Observable and ghost events\<close>

text \<open>
  A run returns, next to its result, the list of what it did, in order: the nodes the
  graph entered (with the state handed to the node), the invocations of an agent's
  language model, and the lines printed. \<open>'r\<close> is the type of a raw model response.
\<close>

datatype agent_name = PatternAnalysisAgent | FraudTypeAgent | SummaryAgent

datatype 'r event =
    Enter string CuratorState
  | Invoke agent_name
  | Print_error error
  | Print_response 'r
  | Print_state string CuratorState

section \<open>Agents\<close>

text \<open>
  \<open>BaseAgent._validate_and_parse_response\<close>: the body of the \<open>try\<close> is
  \<open>return response\<close>; the handler prints the error and the original response and
  raises the same exception again.
\<close>

definition try_return :: "'r \<Rightarrow> error + 'r" where
  "try_return response = Inr response"

definition validate_and_parse_response :: "'r \<Rightarrow> 'r event list \<times> (error + 'r)" where
  "validate_and_parse_response response =
     (case try_return response of
        Inr r \<Rightarrow> ([], Inr r)
      | Inl e \<Rightarrow> ([Print_error e, Print_response response], Inl e))"

text \<open>
  An agent is its structured-output model: \<open>llm.with_structured_output(output_model)\<close>
  behind the agent's prompt template, as a function of the template's arguments. The
  prompt texts are constants of the source and play no part in the control flow.
\<close>

type_synonym 'r pattern_llm = "string \<Rightarrow> error + 'r"
type_synonym 'r type_llm = "PatternAnalysisOutput option \<Rightarrow> string list \<Rightarrow> error + 'r"
type_synonym 'r summary_llm =
  "PatternAnalysisOutput option \<Rightarrow> FraudTypeOutput option \<Rightarrow> error + 'r"

text \<open>
  The shared shape of \<open>analyze\<close>, \<open>classify\<close> and \<open>summarize\<close>:
  \<open>response = self.llm.invoke(...)\<close>, then
  \<open>return self._validate_and_parse_response(response)\<close>. An exception of \<open>invoke\<close>
  leaves the method before \<open>_validate_and_parse_response\<close> is called.
\<close>

definition agent_call :: "agent_name \<Rightarrow> error + 'r \<Rightarrow> 'r event list \<times> (error + 'r)" where
  "agent_call a invoked =
     (case invoked of
        Inl e \<Rightarrow> ([Invoke a], Inl e)
      | Inr response \<Rightarrow>
          (case validate_and_parse_response response of
             (out, r) \<Rightarrow> (Invoke a # out, r)))"

definition analyze :: "'r pattern_llm \<Rightarrow> string \<Rightarrow> 'r event list \<times> (error + 'r)" where
  "analyze llm txt = agent_call PatternAnalysisAgent (llm txt)"

definition classify ::
  "'r type_llm \<Rightarrow> PatternAnalysisOutput option \<Rightarrow> string list \<Rightarrow> 'r event list \<times> (error + 'r)" where
  "classify llm pattern_description cases =
     agent_call FraudTypeAgent (llm pattern_description cases)"

definition summarize ::
  "'r summary_llm \<Rightarrow> PatternAnalysisOutput option \<Rightarrow> FraudTypeOutput option \<Rightarrow>
     'r event list \<times> (error + 'r)" where
  "summarize llm pa ft = agent_call SummaryAgent (llm pa ft)"

section \<open>The workflow\<close>

text \<open>
  What \<open>create_curator_graph\<close> closes over: the three agents, and the three
  \<open>model_validate\<close> class methods the nodes call on an agent's result. A validator
  returns the validated model or the text of pydantic's validation error.
\<close>

record 'r env =
  pattern_agent :: "'r pattern_llm"
  type_agent :: "'r type_llm"
  summary_agent :: "'r summary_llm"
  PatternAnalysisOutput_validate :: "'r \<Rightarrow> string + PatternAnalysisOutput"
  FraudTypeOutput_validate :: "'r \<Rightarrow> string + FraudTypeOutput"
  FraudSummaryOutput_validate :: "'r \<Rightarrow> string + FraudSummaryOutput"

type_synonym 'r node_fn = "CuratorState \<Rightarrow> 'r event list \<times> (error + CuratorState)"

text \<open>
  The node functions. \<open>CuratorState.model_validate(state)\<close> on entry and
  \<open>state.model_dump()\<close> on exit convert between the record and its dictionary and
  change nothing on a state of the right type, which the record type guarantees.
\<close>

definition analyze_patterns :: "'r env \<Rightarrow> 'r node_fn" where
  "analyze_patterns env state =
     (case analyze (pattern_agent env) (CuratorState.text state) of
        (evs, Inl e) \<Rightarrow> (evs, Inl e)
      | (evs, Inr result) \<Rightarrow>
          (case PatternAnalysisOutput_validate env result of
             Inl e \<Rightarrow>
               (evs, Inl (ValueError
                  (''Error al validar el resultado de PatternAnalysisAgent: '' @ e)))
           | Inr result_model \<Rightarrow>
               (evs, Inr (state\<lparr>pattern_analysis := Some result_model,
                    CuratorState.is_fraud := PatternAnalysisOutput.is_fraud result_model\<rparr>))))"

definition classify_type :: "'r env \<Rightarrow> 'r node_fn" where
  "classify_type env state =
     (case classify (type_agent env) (pattern_analysis state)
             (CuratorState.similar_cases state) of
        (evs, Inl e) \<Rightarrow> (evs, Inl e)
      | (evs, Inr result) \<Rightarrow>
          (case FraudTypeOutput_validate env result of
             Inl e \<Rightarrow>
               (evs, Inl (ValueError
                  (''Error al validar el resultado de FraudTypeAgent: '' @ e)))
           | Inr result_model \<Rightarrow>
               (let state1 = state\<lparr>CuratorState.fraud_type := Some result_model\<rparr>;
                    state2 =
                      (if FraudTypeOutput.fraud_type result_model = ''NEW''
                       then state1\<lparr>CuratorState.new_type_name :=
                                      FraudTypeOutput.new_type_name result_model\<rparr>
                       else state1)
                in (evs @ [Print_state ''State after classify: '' state2], Inr state2))))"

definition generate_summary :: "'r env \<Rightarrow> 'r node_fn" where
  "generate_summary env state =
     (case summarize (summary_agent env) (pattern_analysis state)
             (CuratorState.fraud_type state) of
        (evs, Inl e) \<Rightarrow> (evs, Inl e)
      | (evs, Inr result) \<Rightarrow>
          (case FraudSummaryOutput_validate env result of
             Inl e \<Rightarrow>
               (evs, Inl (ValueError
                  (''Error al validar el resultado de SummaryAgent: '' @ e)))
           | Inr result_model \<Rightarrow>
               (evs @ [Print_state [] state],
                Inr (state\<lparr>final_summary := Some (summary result_model)\<rparr>))))"

definition should_classify :: "CuratorState \<Rightarrow> string" where
  "should_classify state = (if CuratorState.is_fraud state then ''classify'' else ''end'')"

subsection \<open>The graph and its runner\<close>

text \<open>
  The graph as \<open>create_curator_graph\<close> declares it: named nodes, plain edges,
  conditional edges (a router and the mapping from its answer to a target) and the entry
  point. \<open>END\<close> is the library's terminal target.
\<close>

record 'r StateGraph =
  nodes :: "(string \<times> 'r node_fn) list"
  edges :: "(string \<times> string) list"
  conditional_edges :: "(string \<times> (CuratorState \<Rightarrow> string) \<times> (string \<times> string) list) list"
  entry_point :: string

definition END :: string where
  "END = ''__end__''"

definition create_curator_graph :: "'r env \<Rightarrow> 'r StateGraph" where
  "create_curator_graph env =
     \<lparr>nodes = [(''analyze_patterns'', analyze_patterns env),
               (''classify_type'', classify_type env),
               (''generate_summary'', generate_summary env)],
      edges = [(''classify_type'', ''generate_summary''),
               (''generate_summary'', END)],
      conditional_edges =
        [(''analyze_patterns'', should_classify,
            [(''classify'', ''classify_type''), (''end'', END)])],
      entry_point = ''analyze_patterns''\<rparr>"

text \<open>
  \<open>workflow.invoke\<close> is the graph library's; it is modelled for graphs in which one
  node is active at a time, which is every graph this module builds. The runner starts
  at the entry point, runs the active node on the state, replaces the state by the
  dictionary the node returns (each node returns the whole state, \<open>state.model_dump()\<close>),
  and follows the node's conditional edge if it has one, else its plain edge, until the
  target is \<open>END\<close>. An exception of a node ends the run. The library stops a run after
  \<open>recursion_limit\<close> steps (25 unless configured; the module does not configure it).
\<close>

definition next_node :: "'r StateGraph \<Rightarrow> string \<Rightarrow> CuratorState \<Rightarrow> error + string" where
  "next_node g n state =
     (case map_of (conditional_edges g) n of
        Some (router, mapping) \<Rightarrow>
          (case map_of mapping (router state) of
             Some target \<Rightarrow> Inr target
           | None \<Rightarrow> Inl (KeyError (router state)))
      | None \<Rightarrow>
          (case map_of (edges g) n of
             Some target \<Rightarrow> Inr target
           | None \<Rightarrow> Inl (ValueError (''dead-end node: '' @ n))))"

fun run :: "nat \<Rightarrow> 'r StateGraph \<Rightarrow> string \<Rightarrow> CuratorState \<Rightarrow>
    'r event list \<times> (error + CuratorState)" where
  "run 0 g n state = (if n = END then ([], Inr state) else ([], Inl GraphRecursionError))"
| "run (Suc k) g n state =
     (if n = END then ([], Inr state)
      else
        (case map_of (nodes g) n of
           None \<Rightarrow> ([], Inl (KeyError n))
         | Some f \<Rightarrow>
             (case f state of
                (evs, Inl e) \<Rightarrow> (Enter n state # evs, Inl e)
              | (evs, Inr state') \<Rightarrow>
                  (case next_node g n state' of
                     Inl e \<Rightarrow> (Enter n state # evs, Inl e)
                   | Inr m \<Rightarrow>
                       (case run k g m state' of
                          (evs', r) \<Rightarrow> (Enter n state # evs @ evs', r))))))"

definition recursion_limit :: nat where
  "recursion_limit = 25"

definition invoke :: "'r StateGraph \<Rightarrow> CuratorState \<Rightarrow> 'r event list \<times> (error + CuratorState)" where
  "invoke g state = run recursion_limit g (entry_point g) state"

section \<open>\<open>CuratorAgent.analyze_case\<close>\<close>

text \<open>
  \<open>final_state.pattern_analysis["reasoning"]\<close> and
  \<open>final_state.fraud_type["fraud_type"]\<close>: subscripting \<open>None\<close> raises \<open>TypeError\<close>.
\<close>

definition subscript_reasoning :: "PatternAnalysisOutput option \<Rightarrow> error + string" where
  "subscript_reasoning pa =
     (case pa of
        None \<Rightarrow> Inl (TypeError ''NoneType object is not subscriptable'')
      | Some d \<Rightarrow> Inr (reasoning d))"

definition subscript_fraud_type :: "FraudTypeOutput option \<Rightarrow> error + string" where
  "subscript_fraud_type ft =
     (case ft of
        None \<Rightarrow> Inl (TypeError ''NoneType object is not subscriptable'')
      | Some d \<Rightarrow> Inr (FraudTypeOutput.fraud_type d))"

text \<open>
  Python's \<open>a or b\<close> on an optional string: \<open>a\<close> if it is truthy (neither \<open>None\<close> nor
  the empty string), else \<open>b\<close>, which is evaluated only then.
\<close>

definition py_or :: "string option \<Rightarrow> error + string \<Rightarrow> error + string" where
  "py_or a b = (case a of None \<Rightarrow> b | Some s \<Rightarrow> (if s = [] then b else Inr s))"

definition initial_state :: "TextInput \<Rightarrow> string list \<Rightarrow> CuratorState" where
  "initial_state text_input cases =
     \<lparr>CuratorState.text = TextInput.text text_input,
      similar_cases = cases,
      pattern_analysis = None,
      fraud_type = None,
      final_summary = None,
      is_fraud = False,
      new_type_name = None\<rparr>"

text \<open>
  The mapping of the terminal state to the result, the second half of \<open>analyze_case\<close>.
  \<open>now\<close> is the reading of \<open>datetime.now()\<close>. The keyword arguments are evaluated in
  the order written.
\<close>

definition to_analysis :: "datetime \<Rightarrow> string list \<Rightarrow> CuratorState \<Rightarrow> error + FraudAnalysis" where
  "to_analysis now cases final_state =
     (if CuratorState.is_fraud final_state then
        (case subscript_fraud_type (CuratorState.fraud_type final_state) of
           Inl e \<Rightarrow> Inl e
         | Inr ft \<Rightarrow>
             (case py_or (final_summary final_state)
                     (subscript_reasoning (pattern_analysis final_state)) of
                Inl e \<Rightarrow> Inl e
              | Inr expl \<Rightarrow>
                  Inr \<lparr>FraudAnalysis.is_fraud = True,
                       fraud_type = ft,
                       explanation = expl,
                       similar_cases = cases,
                       timestamp = now,
                       new_type_name = CuratorState.new_type_name final_state\<rparr>))
      else
        (case subscript_reasoning (pattern_analysis final_state) of
           Inl e \<Rightarrow> Inl e
         | Inr expl \<Rightarrow>
             Inr \<lparr>FraudAnalysis.is_fraud = False,
                  fraud_type = ''NO_FRAUD'',
                  explanation = expl,
                  similar_cases = cases,
                  timestamp = now,
                  new_type_name = None\<rparr>))"

definition analyze_case ::
  "'r env \<Rightarrow> datetime \<Rightarrow> TextInput \<Rightarrow> string list \<Rightarrow> 'r event list \<times> (error + FraudAnalysis)" where
  "analyze_case env now text_input cases =
     (case invoke (create_curator_graph env) (initial_state text_input cases) of
        (evs, Inl e) \<Rightarrow> (evs, Inl e)
      | (evs, Inr final_state) \<Rightarrow> (evs, to_analysis now cases final_state))"

section \<open>Schema validation of the output models\<close>

text \<open>
  A raw response as Python sees it: \<open>None\<close>, a boolean, an integer, a string, a list
  or a dictionary with string keys, the keys distinct (an instance of an output model
  counts as the dictionary of its fields).
\<close>

datatype pyval =
    PyNone
  | PyBool bool
  | PyInt int
  | PyStr string
  | PyList "pyval list"
  | PyDict "(string \<times> pyval) list"

text \<open>
  Readers for the field types the three output models declare, as \<open>model_validate\<close>
  reads them by default (pydantic's lax mode). A \<open>bool\<close> field takes a boolean, the
  integers 0 and 1, and the strings \<open>0 f n no off false\<close> and \<open>1 t y on yes true\<close>,
  the words in any mix of upper and lower case. A \<open>str\<close> field takes a string only.
\<close>

definition ascii_lower :: "char \<Rightarrow> char" where
  "ascii_lower c =
     (if (65::nat) \<le> of_char c \<and> of_char c \<le> (90::nat)
      then char_of (of_char c + (32::nat)) else c)"

fun as_bool :: "pyval \<Rightarrow> bool option" where
  "as_bool (PyBool b) = Some b"
| "as_bool (PyInt i) = (if i = 0 then Some False else if i = 1 then Some True else None)"
| "as_bool (PyStr s) =
     (if s = ''0'' \<or> map ascii_lower s \<in> set [''f'', ''n'', ''no'', ''off'', ''false'']
      then Some False
      else if s = ''1'' \<or> map ascii_lower s \<in> set [''t'', ''y'', ''on'', ''yes'', ''true'']
      then Some True
      else None)"
| "as_bool _ = None"

fun as_str :: "pyval \<Rightarrow> string option" where
  "as_str (PyStr s) = Some s"
| "as_str _ = None"

fun as_optional_str :: "pyval \<Rightarrow> string option option" where
  "as_optional_str PyNone = Some None"
| "as_optional_str (PyStr s) = Some (Some s)"
| "as_optional_str _ = None"

fun as_str_list :: "pyval \<Rightarrow> string list option" where
  "as_str_list (PyList vs) =
     (if list_all (\<lambda>v. as_str v \<noteq> None) vs then Some (map (\<lambda>v. the (as_str v)) vs)
      else None)"
| "as_str_list _ = None"

text \<open>
  A field without a default is required; a field with a default takes the default when
  its key is missing. Keys the model does not declare are ignored. \<open>None\<close> is a
  validation failure.
\<close>

definition required :: "(string \<times> pyval) list \<Rightarrow> string \<Rightarrow> (pyval \<Rightarrow> 'a option) \<Rightarrow> 'a option" where
  "required d k reader = (case map_of d k of None \<Rightarrow> None | Some v \<Rightarrow> reader v)"

definition with_default ::
  "(string \<times> pyval) list \<Rightarrow> string \<Rightarrow> (pyval \<Rightarrow> 'a option) \<Rightarrow> 'a \<Rightarrow> 'a option" where
  "with_default d k reader dflt =
     (case map_of d k of None \<Rightarrow> Some dflt | Some v \<Rightarrow> reader v)"

text \<open>
  The fields of the three output models, read off the class declarations: each declared
  field is read at its declared type, and nothing else is checked (the classes declare
  no validator and no field constraint).
\<close>

definition PatternAnalysisOutput_fields :: "pyval \<Rightarrow> PatternAnalysisOutput option" where
  "PatternAnalysisOutput_fields v =
     (case v of
        PyDict d \<Rightarrow>
          (case required d ''is_fraud'' as_bool of
             None \<Rightarrow> None
           | Some f \<Rightarrow>
               (case required d ''patterns'' as_str_list of
                  None \<Rightarrow> None
                | Some ps \<Rightarrow>
                    (case required d ''reasoning'' as_str of
                       None \<Rightarrow> None
                     | Some r \<Rightarrow>
                         Some \<lparr>PatternAnalysisOutput.is_fraud = f, patterns = ps,
                               reasoning = r\<rparr>)))
      | _ \<Rightarrow> None)"

definition FraudTypeOutput_fields :: "pyval \<Rightarrow> FraudTypeOutput option" where
  "FraudTypeOutput_fields v =
     (case v of
        PyDict d \<Rightarrow>
          (case required d ''fraud_type'' as_str of
             None \<Rightarrow> None
           | Some ft \<Rightarrow>
               (case required d ''explanation'' as_str of
                  None \<Rightarrow> None
                | Some ex \<Rightarrow>
                    (case with_default d ''new_type_name'' as_optional_str None of
                       None \<Rightarrow> None
                     | Some n \<Rightarrow>
                         Some \<lparr>FraudTypeOutput.fraud_type = ft, explanation = ex,
                               new_type_name = n\<rparr>)))
      | _ \<Rightarrow> None)"

definition FraudSummaryOutput_fields :: "pyval \<Rightarrow> FraudSummaryOutput option" where
  "FraudSummaryOutput_fields v =
     (case v of
        PyDict d \<Rightarrow>
          (case required d ''summary'' as_str of
             None \<Rightarrow> None
           | Some s \<Rightarrow>
               (case required d ''warning_signs'' as_str_list of
                  None \<Rightarrow> None
                | Some ws \<Rightarrow>
                    (case required d ''precautions'' as_str_list of
                       None \<Rightarrow> None
                     | Some ps \<Rightarrow>
                         Some \<lparr>summary = s, warning_signs = ws, precautions = ps\<rparr>)))
      | _ \<Rightarrow> None)"

text \<open>
  The text of the \<open>ValidationError\<close> that \<open>model_validate\<close> raises for a model (by
  name) on an input is pydantic's own and depends on its version. It is left
  uninterpreted: some text, about which nothing is known and nothing can be proved.
\<close>

definition ValidationError_text :: "string \<Rightarrow> pyval \<Rightarrow> string" where
  "ValidationError_text = (SOME render. True)"

text \<open>\<open>model_validate\<close>: the validated model, or the text of the error raised.\<close>

definition PatternAnalysisOutput_model_validate :: "pyval \<Rightarrow> string + PatternAnalysisOutput" where
  "PatternAnalysisOutput_model_validate v =
     (case PatternAnalysisOutput_fields v of
        None \<Rightarrow> Inl (ValidationError_text ''PatternAnalysisOutput'' v)
      | Some m \<Rightarrow> Inr m)"

definition FraudTypeOutput_model_validate :: "pyval \<Rightarrow> string + FraudTypeOutput" where
  "FraudTypeOutput_model_validate v =
     (case FraudTypeOutput_fields v of
        None \<Rightarrow> Inl (ValidationError_text ''FraudTypeOutput'' v)
      | Some m \<Rightarrow> Inr m)"

definition FraudSummaryOutput_model_validate :: "pyval \<Rightarrow> string + FraudSummaryOutput" where
  "FraudSummaryOutput_model_validate v =
     (case FraudSummaryOutput_fields v of
        None \<Rightarrow> Inl (ValidationError_text ''FraudSummaryOutput'' v)
      | Some m \<Rightarrow> Inr m)"

text \<open>The environment of a deployment: three agents, and the validators above.\<close>

definition pydantic_env :: "pyval pattern_llm \<Rightarrow> pyval type_llm \<Rightarrow> pyval summary_llm \<Rightarrow> pyval env" where
  "pydantic_env p t s =
     \<lparr>pattern_agent = p, type_agent = t, summary_agent = s,
      PatternAnalysisOutput_validate = PatternAnalysisOutput_model_validate,
      FraudTypeOutput_validate = FraudTypeOutput_model_validate,
      FraudSummaryOutput_validate = FraudSummaryOutput_model_validate\<rparr>"

text \<open>\<open>model_dump()\<close> of the output models, for writing down what an agent answers.\<close>

definition dump_pattern :: "PatternAnalysisOutput \<Rightarrow> pyval" where
  "dump_pattern p =
     PyDict [(''is_fraud'', PyBool (PatternAnalysisOutput.is_fraud p)),
             (''patterns'', PyList (map PyStr (patterns p))),
             (''reasoning'', PyStr (reasoning p))]"

definition dump_type :: "FraudTypeOutput \<Rightarrow> pyval" where
  "dump_type t =
     PyDict [(''fraud_type'', PyStr (FraudTypeOutput.fraud_type t)),
             (''explanation'', PyStr (FraudTypeOutput.explanation t)),
             (''new_type_name'',
                (case FraudTypeOutput.new_type_name t of None \<Rightarrow> PyNone | Some n \<Rightarrow> PyStr n))]"

definition dump_summary :: "FraudSummaryOutput \<Rightarrow> pyval" where
  "dump_summary s =
     PyDict [(''summary'', PyStr (summary s)),
             (''warning_signs'', PyList (map PyStr (warning_signs s))),
             (''precautions'', PyList (map PyStr (precautions s)))]"

text \<open>
  Agents that give the same outcome (an exception or a response) whatever they are
  asked: enough to drive the workflow down each of its paths.
\<close>

definition replying :: "error + pyval \<Rightarrow> error + pyval \<Rightarrow> error + pyval \<Rightarrow> pyval env" where
  "replying a b c = pydantic_env (\<lambda>_. a) (\<lambda>_ _. b) (\<lambda>_ _. c)"

definition answering :: "PatternAnalysisOutput \<Rightarrow> FraudTypeOutput \<Rightarrow> FraudSummaryOutput \<Rightarrow> pyval env" where
  "answering p t s = replying (Inr (dump_pattern p)) (Inr (dump_type t)) (Inr (dump_summary s))"

text \<open>
  The cases of the specification's end-to-end scenarios: a password-reset phishing
  mail, a price dispute without deception, a scheme no known category covers, and a
  summary agent that answers with an empty summary.
\<close>

definition phishing_pattern :: PatternAnalysisOutput where
  "phishing_pattern =
     \<lparr>PatternAnalysisOutput.is_fraud = True,
      patterns = [''link to a fake login page''],
      reasoning = ''The mail imitates the bank to collect the password''\<rparr>"

definition dispute_pattern :: PatternAnalysisOutput where
  "dispute_pattern =
     \<lparr>PatternAnalysisOutput.is_fraud = False,
      patterns = [],
      reasoning = ''A price disagreement between buyer and seller, no deception''\<rparr>"

definition phishing_type :: FraudTypeOutput where
  "phishing_type =
     \<lparr>FraudTypeOutput.fraud_type = ''PHISHING'',
      explanation = ''Credentials are obtained by impersonation'',
      new_type_name = None\<rparr>"

definition novel_type :: FraudTypeOutput where
  "novel_type =
     \<lparr>FraudTypeOutput.fraud_type = ''NEW'',
      explanation = ''No known category covers the mechanism'',
      new_type_name = Some ''SYNTHETIC IDENTITY LOAN STACKING''\<rparr>"

definition phishing_summary :: FraudSummaryOutput where
  "phishing_summary =
     \<lparr>summary = ''A mail asks for a password reset on a fake page'',
      warning_signs = [''urgency''],
      precautions = [''type the address of the bank by hand'']\<rparr>"

definition empty_summary :: FraudSummaryOutput where
  "empty_summary = \<lparr>summary = [], warning_signs = [], precautions = []\<rparr>"

definition reset_mail :: TextInput where
  "reset_mail = \<lparr>TextInput.text = ''Your account is locked, reset your password here''\<rparr>"

section \<open>Observations on a run\<close>

text \<open>The nodes a run entered, the states it handed to them, the agents it invoked.\<close>

fun nodes_entered :: "'r event list \<Rightarrow> string list" where
  "nodes_entered [] = []"
| "nodes_entered (Enter n st # evs) = n # nodes_entered evs"
| "nodes_entered (_ # evs) = nodes_entered evs"

fun states_entered :: "'r event list \<Rightarrow> CuratorState list" where
  "states_entered [] = []"
| "states_entered (Enter n st # evs) = st # states_entered evs"
| "states_entered (_ # evs) = states_entered evs"

fun agents_invoked :: "'r event list \<Rightarrow> agent_name list" where
  "agents_invoked [] = []"
| "agents_invoked (Invoke a # evs) = a # agents_invoked evs"
| "agents_invoked (_ # evs) = agents_invoked evs"

text \<open>
  The invariant the specification states for \<open>CuratorState\<close>: the category and the
  new-category name are populated only if the fraud flag is set.
\<close>

definition populated_only_if_fraud :: "CuratorState \<Rightarrow> bool" where
  "populated_only_if_fraud st =
     ((CuratorState.fraud_type st \<noteq> None \<or> CuratorState.new_type_name st \<noteq> None)
        \<longrightarrow> CuratorState.is_fraud st)"

text \<open>
  The states of a run that gets that far: after \<open>analyze_patterns\<close> validated \<open>p\<close>,
  after \<open>classify_type\<close> validated \<open>t\<close>, after \<open>generate_summary\<close> validated \<open>s\<close>.
\<close>

definition state1 :: "TextInput \<Rightarrow> string list \<Rightarrow> PatternAnalysisOutput \<Rightarrow> CuratorState" where
  "state1 ti cases p =
     (initial_state ti cases)\<lparr>pattern_analysis := Some p,
        CuratorState.is_fraud := PatternAnalysisOutput.is_fraud p\<rparr>"

definition state2 ::
  "TextInput \<Rightarrow> string list \<Rightarrow> PatternAnalysisOutput \<Rightarrow> FraudTypeOutput \<Rightarrow> CuratorState" where
  "state2 ti cases p t =
     (state1 ti cases p)\<lparr>CuratorState.fraud_type := Some t,
        CuratorState.new_type_name :=
          (if FraudTypeOutput.fraud_type t = ''NEW'' then FraudTypeOutput.new_type_name t
           else None)\<rparr>"

definition state3 ::
  "TextInput \<Rightarrow> string list \<Rightarrow> PatternAnalysisOutput \<Rightarrow> FraudTypeOutput \<Rightarrow> FraudSummaryOutput \<Rightarrow>
     CuratorState" where
  "state3 ti cases p t s = (state2 ti cases p t)\<lparr>final_summary := Some (summary s)\<rparr>"

text \<open>
  Whether the classification step of a run gets through: the type agent answers and its
  answer validates.
\<close>

definition classification_succeeds :: "'r env \<Rightarrow> PatternAnalysisOutput \<Rightarrow> string list \<Rightarrow> bool" where
  "classification_succeeds env p cases =
     (case type_agent env (Some p) cases of
        Inl e \<Rightarrow> False
      | Inr raw \<Rightarrow>
          (case FraudTypeOutput_validate env raw of Inl m \<Rightarrow> False | Inr t \<Rightarrow> True))"

text \<open>
  Responses that fail validation: \<open>None\<close> where a pattern analysis is expected, a
  classification without its explanation, a bare string where a summary is expected.
\<close>

definition no_dictionary :: pyval where
  "no_dictionary = PyNone"

definition type_without_explanation :: pyval where
  "type_without_explanation = PyDict [(''fraud_type'', PyStr ''PHISHING'')]"

definition summary_as_text :: pyval where
  "summary_as_text = PyStr ''A mail asks for a password reset on a fake page''"

section \<open>Auxiliary facts\<close>

lemma agent_call_simp:
  "agent_call a r = ([Invoke a], r)"
  by (simp add: agent_call_def validate_and_parse_response_def try_return_def split: sum.splits)

lemma as_str_list_strs: "as_str_list (PyList (map PyStr xs)) = Some xs"
  by (induction xs) (simp_all add: list_all_iff o_def)

lemma validate_dump_pattern: "PatternAnalysisOutput_model_validate (dump_pattern p) = Inr p"
  by (simp add: PatternAnalysisOutput_model_validate_def PatternAnalysisOutput_fields_def
      dump_pattern_def required_def as_str_list_strs del: as_str_list.simps)

lemma validate_dump_type: "FraudTypeOutput_model_validate (dump_type t) = Inr t"
  by (simp add: FraudTypeOutput_model_validate_def FraudTypeOutput_fields_def dump_type_def
      required_def with_default_def split: option.splits)

lemma validate_dump_summary: "FraudSummaryOutput_model_validate (dump_summary s) = Inr s"
  by (simp add: FraudSummaryOutput_model_validate_def FraudSummaryOutput_fields_def
      dump_summary_def required_def as_str_list_strs del: as_str_list.simps)

lemma replying_simps:
  "pattern_agent (replying a b c) x = a"
  "type_agent (replying a b c) y z = b"
  "summary_agent (replying a b c) u v = c"
  "PatternAnalysisOutput_validate (replying a b c) = PatternAnalysisOutput_model_validate"
  "FraudTypeOutput_validate (replying a b c) = FraudTypeOutput_model_validate"
  "FraudSummaryOutput_validate (replying a b c) = FraudSummaryOutput_model_validate"
  by (simp_all add: replying_def pydantic_env_def)

text \<open>
  The whole run of the workflow from the initial state, path by path: the events and the
  outcome in terms of what the agents answer and what the validators make of it.
\<close>

lemma invoke_initial:
  "invoke (create_curator_graph env) (initial_state ti cases) =
     (let s0 = initial_state ti cases;
          ev1 = [Enter ''analyze_patterns'' s0, Invoke PatternAnalysisAgent]
      in case pattern_agent env (TextInput.text ti) of
           Inl e \<Rightarrow> (ev1, Inl e)
         | Inr raw1 \<Rightarrow>
        (case PatternAnalysisOutput_validate env raw1 of
           Inl m \<Rightarrow> (ev1, Inl (ValueError
              (''Error al validar el resultado de PatternAnalysisAgent: '' @ m)))
         | Inr p \<Rightarrow>
        (let s1 = state1 ti cases p;
             ev2 = ev1 @ [Enter ''classify_type'' s1, Invoke FraudTypeAgent]
         in if \<not> PatternAnalysisOutput.is_fraud p then (ev1, Inr s1)
            else
        (case type_agent env (Some p) cases of
           Inl e \<Rightarrow> (ev2, Inl e)
         | Inr raw2 \<Rightarrow>
        (case FraudTypeOutput_validate env raw2 of
           Inl m \<Rightarrow> (ev2, Inl (ValueError
              (''Error al validar el resultado de FraudTypeAgent: '' @ m)))
         | Inr t \<Rightarrow>
        (let s2 = state2 ti cases p t;
             ev3 = ev2 @ [Print_state ''State after classify: '' s2,
                     Enter ''generate_summary'' s2, Invoke SummaryAgent]
         in case summary_agent env (Some p) (Some t) of
           Inl e \<Rightarrow> (ev3, Inl e)
         | Inr raw3 \<Rightarrow>
        (case FraudSummaryOutput_validate env raw3 of
           Inl m \<Rightarrow> (ev3, Inl (ValueError
              (''Error al validar el resultado de SummaryAgent: '' @ m)))
         | Inr s \<Rightarrow> (ev3 @ [Print_state [] s2], Inr (state3 ti cases p t s)))))))))"
  by (simp add: invoke_def recursion_limit_def create_curator_graph_def numeral_eq_Suc
      next_node_def should_classify_def END_def analyze_patterns_def classify_type_def
      generate_summary_def analyze_def classify_def summarize_def agent_call_simp
      state1_def state2_def state3_def initial_state_def Let_def
      split: sum.splits)

text \<open>Collections of defining equations for the proofs below.\<close>

lemmas run_defs = analyze_case_def to_analysis_def subscript_reasoning_def
  subscript_fraud_type_def py_or_def state1_def state2_def state3_def Let_def

lemmas answer_defs = answering_def replying_simps validate_dump_pattern validate_dump_type
  validate_dump_summary

text \<open>The events of \<open>analyze_case\<close> are those of the workflow run.\<close>

lemma analyze_case_fst:
  "fst (analyze_case env now ti cases) =
     fst (invoke (create_curator_graph env) (initial_state ti cases))"
  by (simp add: analyze_case_def split: prod.splits sum.splits)

text \<open>What each node leaves alone.\<close>

lemma analyze_patterns_frame:
  "snd (analyze_patterns env st) = Inr st' \<Longrightarrow>
     CuratorState.similar_cases st' = CuratorState.similar_cases st
     \<and> CuratorState.text st' = CuratorState.text st
     \<and> CuratorState.fraud_type st' = CuratorState.fraud_type st
     \<and> CuratorState.new_type_name st' = CuratorState.new_type_name st
     \<and> final_summary st' = final_summary st"
  by (auto simp add: analyze_patterns_def analyze_def agent_call_simp split: sum.splits)

lemma classify_type_frame:
  "snd (classify_type env st) = Inr st' \<Longrightarrow>
     CuratorState.similar_cases st' = CuratorState.similar_cases st
     \<and> CuratorState.text st' = CuratorState.text st
     \<and> CuratorState.is_fraud st' = CuratorState.is_fraud st
     \<and> pattern_analysis st' = pattern_analysis st
     \<and> final_summary st' = final_summary st"
  by (auto simp add: classify_type_def classify_def agent_call_simp Let_def
      split: sum.splits if_splits)

lemma generate_summary_frame:
  "snd (generate_summary env st) = Inr st' \<Longrightarrow>
     CuratorState.similar_cases st' = CuratorState.similar_cases st
     \<and> CuratorState.text st' = CuratorState.text st
     \<and> CuratorState.is_fraud st' = CuratorState.is_fraud st
     \<and> pattern_analysis st' = pattern_analysis st
     \<and> CuratorState.fraud_type st' = CuratorState.fraud_type st
     \<and> CuratorState.new_type_name st' = CuratorState.new_type_name st"
  by (auto simp add: generate_summary_def summarize_def agent_call_simp split: sum.splits)

text \<open>Facts about every state of a run from the initial state.\<close>

lemma to_analysis_similar_cases:
  "to_analysis now cases st = Inr fa \<Longrightarrow> FraudAnalysis.similar_cases fa = cases"
  by (auto simp add: to_analysis_def split: sum.splits if_splits)

lemma states_entered_similar_cases:
  "st \<in> set (states_entered (fst (invoke (create_curator_graph env) (initial_state ti cases))))
     \<Longrightarrow> CuratorState.similar_cases st = cases"
  unfolding invoke_initial
  by (auto simp add: Let_def state1_def state2_def initial_state_def split: sum.splits if_splits)

lemma states_entered_invariant:
  "st \<in> set (states_entered (fst (invoke (create_curator_graph env) (initial_state ti cases))))
     \<Longrightarrow> populated_only_if_fraud st"
  unfolding invoke_initial
  by (auto simp add: Let_def state1_def state2_def initial_state_def populated_only_if_fraud_def
      split: sum.splits if_splits)

lemma terminal_state_invariant:
  "snd (invoke (create_curator_graph env) (initial_state ti cases)) = Inr st
     \<Longrightarrow> populated_only_if_fraud st"
  unfolding invoke_initial
  by (auto simp add: Let_def state1_def state2_def state3_def initial_state_def
      populated_only_if_fraud_def split: sum.splits if_splits)

lemma later_states_keep_is_fraud:
  "pattern_agent env (TextInput.text ti) = Inr raw \<Longrightarrow>
   PatternAnalysisOutput_validate env raw = Inr p \<Longrightarrow>
   (\<forall>st \<in> set (tl (states_entered
        (fst (invoke (create_curator_graph env) (initial_state ti cases))))).
      CuratorState.is_fraud st = PatternAnalysisOutput.is_fraud p)
   \<and> (\<forall>st. snd (invoke (create_curator_graph env) (initial_state ti cases)) = Inr st
         \<longrightarrow> CuratorState.is_fraud st = PatternAnalysisOutput.is_fraud p)"
  unfolding invoke_initial
  by (auto simp add: Let_def state1_def state2_def state3_def initial_state_def
      split: sum.splits if_splits)

text \<open>The runs of the two scenarios that reach the summary.\<close>

lemma states_similar_cases:
  "CuratorState.similar_cases (initial_state ti cs) = cs"
  "CuratorState.similar_cases (state1 ti cs p) = cs"
  "CuratorState.similar_cases (state2 ti cs p t) = cs"
  "CuratorState.similar_cases (state3 ti cs p t s) = cs"
  by (simp_all add: state1_def state2_def state3_def initial_state_def)

lemma node_results_phishing:
  "snd (analyze_patterns (answering phishing_pattern phishing_type phishing_summary)
      (initial_state reset_mail cs)) = Inr (state1 reset_mail cs phishing_pattern)"
  "snd (classify_type (answering phishing_pattern phishing_type phishing_summary)
      (state1 reset_mail cs phishing_pattern)) =
     Inr (state2 reset_mail cs phishing_pattern phishing_type)"
  "snd (generate_summary (answering phishing_pattern phishing_type phishing_summary)
      (state2 reset_mail cs phishing_pattern phishing_type)) =
     Inr (state3 reset_mail cs phishing_pattern phishing_type phishing_summary)"
  by (simp_all add: analyze_patterns_def classify_type_def generate_summary_def analyze_def
      classify_def summarize_def agent_call_simp answer_defs state1_def state2_def state3_def
      initial_state_def Let_def phishing_type_def)

lemma run_phishing:
  "invoke (create_curator_graph (answering phishing_pattern phishing_type phishing_summary))
      (initial_state reset_mail cs) =
     ([Enter ''analyze_patterns'' (initial_state reset_mail cs),
       Invoke PatternAnalysisAgent,
       Enter ''classify_type'' (state1 reset_mail cs phishing_pattern),
       Invoke FraudTypeAgent,
       Print_state ''State after classify: '' (state2 reset_mail cs phishing_pattern phishing_type),
       Enter ''generate_summary'' (state2 reset_mail cs phishing_pattern phishing_type),
       Invoke SummaryAgent,
       Print_state [] (state2 reset_mail cs phishing_pattern phishing_type)],
      Inr (state3 reset_mail cs phishing_pattern phishing_type phishing_summary))"
  unfolding invoke_initial
  by (simp add: answer_defs Let_def phishing_pattern_def)

lemma node_results_novel:
  "snd (analyze_patterns (answering phishing_pattern novel_type phishing_summary)
      (initial_state reset_mail cs)) = Inr (state1 reset_mail cs phishing_pattern)"
  "snd (classify_type (answering phishing_pattern novel_type phishing_summary)
      (state1 reset_mail cs phishing_pattern)) =
     Inr (state2 reset_mail cs phishing_pattern novel_type)"
  "snd (generate_summary (answering phishing_pattern novel_type phishing_summary)
      (state2 reset_mail cs phishing_pattern novel_type)) =
     Inr (state3 reset_mail cs phishing_pattern novel_type phishing_summary)"
  by (simp_all add: analyze_patterns_def classify_type_def generate_summary_def analyze_def
      classify_def summarize_def agent_call_simp answer_defs state1_def state2_def state3_def
      initial_state_def Let_def novel_type_def)

lemma run_novel:
  "invoke (create_curator_graph (answering phishing_pattern novel_type phishing_summary))
      (initial_state reset_mail cs) =
     ([Enter ''analyze_patterns'' (initial_state reset_mail cs),
       Invoke PatternAnalysisAgent,
       Enter ''classify_type'' (state1 reset_mail cs phishing_pattern),
       Invoke FraudTypeAgent,
       Print_state ''State after classify: '' (state2 reset_mail cs phishing_pattern novel_type),
       Enter ''generate_summary'' (state2 reset_mail cs phishing_pattern novel_type),
       Invoke SummaryAgent,
       Print_state [] (state2 reset_mail cs phishing_pattern novel_type)],
      Inr (state3 reset_mail cs phishing_pattern novel_type phishing_summary))"
  unfolding invoke_initial
  by (simp add: answer_defs Let_def phishing_pattern_def)

section \<open>The claims\<close>

text \<open>
  C1. Whenever the pattern-analysis agent answers and its answer validates to a result
  with \<open>is_fraud = False\<close>, \<open>analyze_case\<close> returns a \<open>FraudAnalysis\<close> with
  \<open>is_fraud = False\<close>, \<open>fraud_type = "NO_FRAUD"\<close> and the reasoning of the pattern
  analysis as explanation; the run consists of entering \<open>analyze_patterns\<close> and invoking
  the pattern agent, so neither \<open>classify_type\<close> (the type agent) nor
  \<open>generate_summary\<close> (the summary agent) is invoked.
\<close>

theorem no_fraud_ends_after_pattern_analysis:
  assumes "pattern_agent env (TextInput.text ti) = Inr raw"
    and "PatternAnalysisOutput_validate env raw = Inr p"
    and "\<not> PatternAnalysisOutput.is_fraud p"
  shows "snd (analyze_case env now ti cases) =
           Inr \<lparr>FraudAnalysis.is_fraud = False,
                fraud_type = ''NO_FRAUD'',
                explanation = reasoning p,
                similar_cases = cases,
                timestamp = now,
                new_type_name = None\<rparr>
         \<and> fst (analyze_case env now ti cases) =
             [Enter ''analyze_patterns'' (initial_state ti cases), Invoke PatternAnalysisAgent]
         \<and> ''classify_type'' \<notin> set (nodes_entered (fst (analyze_case env now ti cases)))
         \<and> ''generate_summary'' \<notin> set (nodes_entered (fst (analyze_case env now ti cases)))
         \<and> FraudTypeAgent \<notin> set (agents_invoked (fst (analyze_case env now ti cases)))
         \<and> SummaryAgent \<notin> set (agents_invoked (fst (analyze_case env now ti cases)))"
  using assms
  by (simp add: analyze_case_def invoke_initial to_analysis_def subscript_reasoning_def
      state1_def)

text \<open>C1 at the price dispute of scenario B.\<close>

theorem no_fraud_ends_after_pattern_analysis_witness:
  "pattern_agent (answering dispute_pattern phishing_type phishing_summary)
       (TextInput.text reset_mail) = Inr (dump_pattern dispute_pattern)
   \<and> PatternAnalysisOutput_validate (answering dispute_pattern phishing_type phishing_summary)
       (dump_pattern dispute_pattern) = Inr dispute_pattern
   \<and> \<not> PatternAnalysisOutput.is_fraud dispute_pattern
   \<and> snd (analyze_case (answering dispute_pattern phishing_type phishing_summary) 7 reset_mail
         [''an older case'']) =
       Inr \<lparr>FraudAnalysis.is_fraud = False,
            fraud_type = ''NO_FRAUD'',
            explanation = ''A price disagreement between buyer and seller, no deception'',
            similar_cases = [''an older case''],
            timestamp = 7,
            new_type_name = None\<rparr>
   \<and> agents_invoked (fst (analyze_case (answering dispute_pattern phishing_type phishing_summary)
         7 reset_mail [''an older case''])) = [PatternAnalysisAgent]"
proof -
  let ?env = "answering dispute_pattern phishing_type phishing_summary"
  have h1: "pattern_agent ?env (TextInput.text reset_mail) = Inr (dump_pattern dispute_pattern)"
    by (simp add: answering_def replying_simps)
  have h2: "PatternAnalysisOutput_validate ?env (dump_pattern dispute_pattern) = Inr dispute_pattern"
    by (simp add: answering_def replying_simps validate_dump_pattern)
  have h3: "\<not> PatternAnalysisOutput.is_fraud dispute_pattern"
    by (simp add: dispute_pattern_def)
  from no_fraud_ends_after_pattern_analysis [OF h1 h2 h3, of 7 "[''an older case'']"] h1 h2 h3
  show ?thesis by (simp add: dispute_pattern_def)
qed

text \<open>
  C2, as stated, fails. The summary agent of this run answers with an empty summary:
  the terminal state holds a summary (the empty string), the fraud flag is set, and the
  explanation of the result is the reasoning of the pattern analysis, not the summary.
\<close>

theorem empty_summary_is_not_the_explanation:
  "snd (invoke (create_curator_graph (answering phishing_pattern phishing_type empty_summary))
          (initial_state reset_mail [])) =
     Inr \<lparr>CuratorState.text = ''Your account is locked, reset your password here'',
          similar_cases = [],
          pattern_analysis = Some phishing_pattern,
          fraud_type = Some phishing_type,
          final_summary = Some [],
          is_fraud = True,
          new_type_name = None\<rparr>
   \<and> snd (analyze_case (answering phishing_pattern phishing_type empty_summary) 0 reset_mail []) =
     Inr \<lparr>FraudAnalysis.is_fraud = True,
          fraud_type = ''PHISHING'',
          explanation = ''The mail imitates the bank to collect the password'',
          similar_cases = [],
          timestamp = 0,
          new_type_name = None\<rparr>"
  unfolding analyze_case_def invoke_initial
  by (simp add: answering_def replying_simps validate_dump_pattern validate_dump_type
      validate_dump_summary to_analysis_def subscript_reasoning_def subscript_fraud_type_def
      py_or_def state1_def state2_def state3_def initial_state_def phishing_pattern_def
      phishing_type_def empty_summary_def reset_mail_def Let_def)

text \<open>
  C2, amended. When the pattern agent reports fraud and the three steps get through,
  the result has the category the classification step validated, and its explanation is
  the summary text if that text is not empty, else the reasoning of the pattern
  analysis; when the pattern agent reports no fraud, the category is \<open>"NO_FRAUD"\<close> and
  the explanation is that reasoning. On a terminal state with the fraud flag set and no
  summary at all, the mapping to the result falls back to the reasoning as well.
\<close>

theorem explanation_prefers_nonempty_summary:
  assumes "pattern_agent env (TextInput.text ti) = Inr raw1"
    and "PatternAnalysisOutput_validate env raw1 = Inr p"
  shows "(PatternAnalysisOutput.is_fraud p
            \<and> type_agent env (Some p) cases = Inr raw2
            \<and> FraudTypeOutput_validate env raw2 = Inr t
            \<and> summary_agent env (Some p) (Some t) = Inr raw3
            \<and> FraudSummaryOutput_validate env raw3 = Inr s
          \<longrightarrow> snd (analyze_case env now ti cases) =
                Inr \<lparr>FraudAnalysis.is_fraud = True,
                     fraud_type = FraudTypeOutput.fraud_type t,
                     explanation = (if summary s = [] then reasoning p else summary s),
                     similar_cases = cases,
                     timestamp = now,
                     new_type_name =
                       (if FraudTypeOutput.fraud_type t = ''NEW''
                        then FraudTypeOutput.new_type_name t else None)\<rparr>)
       \<and> (\<not> PatternAnalysisOutput.is_fraud p
          \<longrightarrow> snd (analyze_case env now ti cases) =
                Inr \<lparr>FraudAnalysis.is_fraud = False,
                     fraud_type = ''NO_FRAUD'',
                     explanation = reasoning p,
                     similar_cases = cases,
                     timestamp = now,
                     new_type_name = None\<rparr>)
       \<and> to_analysis now cases
            (st\<lparr>pattern_analysis := Some p, CuratorState.fraud_type := Some t,
                final_summary := None, CuratorState.is_fraud := True\<rparr>) =
           Inr \<lparr>FraudAnalysis.is_fraud = True,
                fraud_type = FraudTypeOutput.fraud_type t,
                explanation = reasoning p,
                similar_cases = cases,
                timestamp = now,
                new_type_name = CuratorState.new_type_name st\<rparr>"
  using assms
  by (simp add: analyze_case_def invoke_initial to_analysis_def subscript_reasoning_def
      subscript_fraud_type_def py_or_def state1_def state2_def state3_def Let_def)

text \<open>
  C2 amended, at the phishing mail of scenario A and at the price dispute of scenario B.
\<close>

theorem explanation_prefers_nonempty_summary_witness:
  "pattern_agent (answering phishing_pattern phishing_type phishing_summary)
       (TextInput.text reset_mail) = Inr (dump_pattern phishing_pattern)
   \<and> PatternAnalysisOutput_validate (answering phishing_pattern phishing_type phishing_summary)
       (dump_pattern phishing_pattern) = Inr phishing_pattern
   \<and> PatternAnalysisOutput.is_fraud phishing_pattern
   \<and> type_agent (answering phishing_pattern phishing_type phishing_summary)
       (Some phishing_pattern) [] = Inr (dump_type phishing_type)
   \<and> FraudTypeOutput_validate (answering phishing_pattern phishing_type phishing_summary)
       (dump_type phishing_type) = Inr phishing_type
   \<and> summary_agent (answering phishing_pattern phishing_type phishing_summary)
       (Some phishing_pattern) (Some phishing_type) = Inr (dump_summary phishing_summary)
   \<and> FraudSummaryOutput_validate (answering phishing_pattern phishing_type phishing_summary)
       (dump_summary phishing_summary) = Inr phishing_summary
   \<and> snd (analyze_case (answering phishing_pattern phishing_type phishing_summary) 3
         reset_mail []) =
       Inr \<lparr>FraudAnalysis.is_fraud = True,
            fraud_type = ''PHISHING'',
            explanation = ''A mail asks for a password reset on a fake page'',
            similar_cases = [],
            timestamp = 3,
            new_type_name = None\<rparr>
   \<and> pattern_agent (answering dispute_pattern phishing_type phishing_summary)
       (TextInput.text reset_mail) = Inr (dump_pattern dispute_pattern)
   \<and> PatternAnalysisOutput_validate (answering dispute_pattern phishing_type phishing_summary)
       (dump_pattern dispute_pattern) = Inr dispute_pattern
   \<and> \<not> PatternAnalysisOutput.is_fraud dispute_pattern
   \<and> snd (analyze_case (answering dispute_pattern phishing_type phishing_summary) 3
         reset_mail []) =
       Inr \<lparr>FraudAnalysis.is_fraud = False,
            fraud_type = ''NO_FRAUD'',
            explanation = ''A price disagreement between buyer and seller, no deception'',
            similar_cases = [],
            timestamp = 3,
            new_type_name = None\<rparr>"
proof -
  let ?A = "answering phishing_pattern phishing_type phishing_summary"
  let ?B = "answering dispute_pattern phishing_type phishing_summary"
  have a1: "pattern_agent ?A (TextInput.text reset_mail) = Inr (dump_pattern phishing_pattern)"
    by (simp add: answering_def replying_simps)
  have a2: "PatternAnalysisOutput_validate ?A (dump_pattern phishing_pattern) = Inr phishing_pattern"
    by (simp add: answering_def replying_simps validate_dump_pattern)
  have a3: "PatternAnalysisOutput.is_fraud phishing_pattern"
    by (simp add: phishing_pattern_def)
  have a4: "type_agent ?A (Some phishing_pattern) [] = Inr (dump_type phishing_type)"
    by (simp add: answering_def replying_simps)
  have a5: "FraudTypeOutput_validate ?A (dump_type phishing_type) = Inr phishing_type"
    by (simp add: answering_def replying_simps validate_dump_type)
  have a6: "summary_agent ?A (Some phishing_pattern) (Some phishing_type)
      = Inr (dump_summary phishing_summary)"
    by (simp add: answering_def replying_simps)
  have a7: "FraudSummaryOutput_validate ?A (dump_summary phishing_summary) = Inr phishing_summary"
    by (simp add: answering_def replying_simps validate_dump_summary)
  have b1: "pattern_agent ?B (TextInput.text reset_mail) = Inr (dump_pattern dispute_pattern)"
    by (simp add: answering_def replying_simps)
  have b2: "PatternAnalysisOutput_validate ?B (dump_pattern dispute_pattern) = Inr dispute_pattern"
    by (simp add: answering_def replying_simps validate_dump_pattern)
  have b3: "\<not> PatternAnalysisOutput.is_fraud dispute_pattern"
    by (simp add: dispute_pattern_def)
  have ra: "snd (analyze_case ?A 3 reset_mail []) =
       Inr \<lparr>FraudAnalysis.is_fraud = True,
            fraud_type = ''PHISHING'',
            explanation = ''A mail asks for a password reset on a fake page'',
            similar_cases = [],
            timestamp = 3,
            new_type_name = None\<rparr>"
    using explanation_prefers_nonempty_summary [OF a1 a2, of "[]" "dump_type phishing_type" phishing_type
        "dump_summary phishing_summary" phishing_summary 3] a3 a4 a5 a6 a7
    by (simp add: phishing_type_def phishing_summary_def)
  have rb: "snd (analyze_case ?B 3 reset_mail []) =
       Inr \<lparr>FraudAnalysis.is_fraud = False,
            fraud_type = ''NO_FRAUD'',
            explanation = ''A price disagreement between buyer and seller, no deception'',
            similar_cases = [],
            timestamp = 3,
            new_type_name = None\<rparr>"
    using explanation_prefers_nonempty_summary [OF b1 b2, of "[]" _ _ _ _ 3] b3
    by (simp add: dispute_pattern_def)
  from a1 a2 a3 a4 a5 a6 a7 b1 b2 b3 ra rb show ?thesis by simp
qed

text \<open>
  C3. In a run that invoked the type agent and returned a result: if the validated
  answer of the type agent has \<open>fraud_type = "NEW"\<close>, the result's \<open>new_type_name\<close>
  is the one the type agent gave; if it has any other \<open>fraud_type\<close>, the result has no
  \<open>new_type_name\<close>, whatever the type agent put there.
\<close>

theorem new_type_name_only_for_new:
  assumes "pattern_agent env (TextInput.text ti) = Inr raw1"
    and "PatternAnalysisOutput_validate env raw1 = Inr p"
    and "FraudTypeAgent \<in> set (agents_invoked (fst (analyze_case env now ti cases)))"
    and "type_agent env (Some p) cases = Inr raw2"
    and "FraudTypeOutput_validate env raw2 = Inr t"
    and "snd (analyze_case env now ti cases) = Inr fa"
  shows "(FraudTypeOutput.fraud_type t = ''NEW''
            \<longrightarrow> FraudAnalysis.new_type_name fa = FraudTypeOutput.new_type_name t)
       \<and> (FraudTypeOutput.fraud_type t \<noteq> ''NEW'' \<longrightarrow> FraudAnalysis.new_type_name fa = None)"
  using assms
  by (auto simp add: analyze_case_def invoke_initial to_analysis_def subscript_reasoning_def
      subscript_fraud_type_def py_or_def state1_def state2_def state3_def Let_def
      split: sum.splits if_splits)

text \<open>
  C3 at scenario C (a new category with its name), and at a type agent that names a
  new category next to the known category \<open>PHISHING\<close>.
\<close>

theorem new_type_name_only_for_new_witness:
  "FraudTypeAgent \<in> set (agents_invoked
       (fst (analyze_case (answering phishing_pattern novel_type phishing_summary) 1 reset_mail [])))
   \<and> FraudTypeOutput_validate (answering phishing_pattern novel_type phishing_summary)
        (dump_type novel_type) = Inr novel_type
   \<and> FraudTypeOutput.fraud_type novel_type = ''NEW''
   \<and> snd (analyze_case (answering phishing_pattern novel_type phishing_summary) 1 reset_mail []) =
       Inr \<lparr>FraudAnalysis.is_fraud = True,
            fraud_type = ''NEW'',
            explanation = ''A mail asks for a password reset on a fake page'',
            similar_cases = [],
            timestamp = 1,
            new_type_name = Some ''SYNTHETIC IDENTITY LOAN STACKING''\<rparr>
   \<and> FraudTypeAgent \<in> set (agents_invoked
       (fst (analyze_case (answering phishing_pattern
           (phishing_type\<lparr>FraudTypeOutput.new_type_name := Some ''SPOOFING''\<rparr>)
           phishing_summary) 1 reset_mail [])))
   \<and> FraudTypeOutput.fraud_type
        (phishing_type\<lparr>FraudTypeOutput.new_type_name := Some ''SPOOFING''\<rparr>) \<noteq> ''NEW''
   \<and> snd (analyze_case (answering phishing_pattern
           (phishing_type\<lparr>FraudTypeOutput.new_type_name := Some ''SPOOFING''\<rparr>)
           phishing_summary) 1 reset_mail []) =
       Inr \<lparr>FraudAnalysis.is_fraud = True,
            fraud_type = ''PHISHING'',
            explanation = ''A mail asks for a password reset on a fake page'',
            similar_cases = [],
            timestamp = 1,
            new_type_name = None\<rparr>"
proof -
  let ?N = "answering phishing_pattern novel_type phishing_summary"
  let ?t = "phishing_type\<lparr>FraudTypeOutput.new_type_name := Some ''SPOOFING''\<rparr>"
  let ?P = "answering phishing_pattern ?t phishing_summary"
  let ?fn = "\<lparr>FraudAnalysis.is_fraud = True,
            fraud_type = ''NEW'',
            explanation = ''A mail asks for a password reset on a fake page'',
            similar_cases = [],
            timestamp = 1,
            new_type_name = Some ''SYNTHETIC IDENTITY LOAN STACKING''\<rparr>"
  let ?fp = "\<lparr>FraudAnalysis.is_fraud = True,
            fraud_type = ''PHISHING'',
            explanation = ''A mail asks for a password reset on a fake page'',
            similar_cases = [],
            timestamp = 1,
            new_type_name = None\<rparr>"
  have n1: "pattern_agent ?N (TextInput.text reset_mail) = Inr (dump_pattern phishing_pattern)"
    and n2: "PatternAnalysisOutput_validate ?N (dump_pattern phishing_pattern) = Inr phishing_pattern"
    and n4: "type_agent ?N (Some phishing_pattern) [] = Inr (dump_type novel_type)"
    and n5: "FraudTypeOutput_validate ?N (dump_type novel_type) = Inr novel_type"
    by (simp_all add: answer_defs)
  have n3: "FraudTypeAgent \<in> set (agents_invoked (fst (analyze_case ?N 1 reset_mail [])))"
    unfolding analyze_case_def invoke_initial
    by (simp add: answer_defs run_defs phishing_pattern_def)
  have n6: "snd (analyze_case ?N 1 reset_mail []) = Inr ?fn"
    unfolding analyze_case_def invoke_initial
    by (simp add: answer_defs run_defs phishing_pattern_def novel_type_def phishing_summary_def)
  have p1: "pattern_agent ?P (TextInput.text reset_mail) = Inr (dump_pattern phishing_pattern)"
    and p2: "PatternAnalysisOutput_validate ?P (dump_pattern phishing_pattern) = Inr phishing_pattern"
    and p4: "type_agent ?P (Some phishing_pattern) [] = Inr (dump_type ?t)"
    and p5: "FraudTypeOutput_validate ?P (dump_type ?t) = Inr ?t"
    by (simp_all add: answer_defs)
  have p3: "FraudTypeAgent \<in> set (agents_invoked (fst (analyze_case ?P 1 reset_mail [])))"
    unfolding analyze_case_def invoke_initial
    by (simp add: answer_defs run_defs phishing_pattern_def)
  have p6: "snd (analyze_case ?P 1 reset_mail []) = Inr ?fp"
    unfolding analyze_case_def invoke_initial
    by (simp add: answer_defs run_defs phishing_pattern_def phishing_type_def phishing_summary_def)
  have tn: "FraudTypeOutput.fraud_type novel_type = ''NEW''"
    by (simp add: novel_type_def)
  have tp: "FraudTypeOutput.fraud_type ?t \<noteq> ''NEW''"
    by (simp add: phishing_type_def)
  from new_type_name_only_for_new [OF n1 n2 n3 n4 n5 n6] tn
  have cn: "FraudAnalysis.new_type_name ?fn = FraudTypeOutput.new_type_name novel_type"
    by simp
  from new_type_name_only_for_new [OF p1 p2 p3 p4 p5 p6] tp
  have cp: "FraudAnalysis.new_type_name ?fp = None"
    by simp
  from n3 n5 tn n6 cn p3 tp p6 cp show ?thesis by simp
qed

text \<open>
  C4. Whatever the agents answer, a result that \<open>analyze_case\<close> returns carries the
  similar-cases list it was given, unchanged; every state handed to a node during the
  run has that list in \<open>similar_cases\<close>; and none of the three node functions changes
  the field, on any state.
\<close>

theorem similar_cases_are_echoed:
  "(\<forall>fa. snd (analyze_case env now ti cases) = Inr fa
        \<longrightarrow> FraudAnalysis.similar_cases fa = cases)
   \<and> (\<forall>st \<in> set (states_entered (fst (analyze_case env now ti cases))).
         CuratorState.similar_cases st = cases)
   \<and> (\<forall>st st'. snd (analyze_patterns env st) = Inr st'
         \<longrightarrow> CuratorState.similar_cases st' = CuratorState.similar_cases st)
   \<and> (\<forall>st st'. snd (classify_type env st) = Inr st'
         \<longrightarrow> CuratorState.similar_cases st' = CuratorState.similar_cases st)
   \<and> (\<forall>st st'. snd (generate_summary env st) = Inr st'
         \<longrightarrow> CuratorState.similar_cases st' = CuratorState.similar_cases st)"
proof -
  have "\<forall>fa. snd (analyze_case env now ti cases) = Inr fa
        \<longrightarrow> FraudAnalysis.similar_cases fa = cases"
    by (auto simp add: analyze_case_def split: prod.splits sum.splits
        dest: to_analysis_similar_cases)
  moreover have "\<forall>st \<in> set (states_entered (fst (analyze_case env now ti cases))).
         CuratorState.similar_cases st = cases"
    by (simp add: analyze_case_fst states_entered_similar_cases)
  ultimately show ?thesis
    using analyze_patterns_frame classify_type_frame generate_summary_frame by blast
qed

text \<open>
  C4 at scenario A with two similar cases.
\<close>

theorem similar_cases_are_echoed_witness:
  "snd (analyze_case (answering phishing_pattern phishing_type phishing_summary) 5 reset_mail
        [''older case one'', ''older case two'']) =
     Inr \<lparr>FraudAnalysis.is_fraud = True,
          fraud_type = ''PHISHING'',
          explanation = ''A mail asks for a password reset on a fake page'',
          similar_cases = [''older case one'', ''older case two''],
          timestamp = 5,
          new_type_name = None\<rparr>
   \<and> length (states_entered (fst (analyze_case
        (answering phishing_pattern phishing_type phishing_summary) 5 reset_mail
        [''older case one'', ''older case two'']))) = 3
   \<and> list_all (\<lambda>st. CuratorState.similar_cases st = [''older case one'', ''older case two''])
        (states_entered (fst (analyze_case
           (answering phishing_pattern phishing_type phishing_summary) 5 reset_mail
           [''older case one'', ''older case two''])))
   \<and> snd (analyze_patterns (answering phishing_pattern phishing_type phishing_summary)
        (initial_state reset_mail [''older case one'', ''older case two''])) =
       Inr (state1 reset_mail [''older case one'', ''older case two''] phishing_pattern)
   \<and> snd (classify_type (answering phishing_pattern phishing_type phishing_summary)
        (state1 reset_mail [''older case one'', ''older case two''] phishing_pattern)) =
       Inr (state2 reset_mail [''older case one'', ''older case two''] phishing_pattern
              phishing_type)
   \<and> snd (generate_summary (answering phishing_pattern phishing_type phishing_summary)
        (state2 reset_mail [''older case one'', ''older case two''] phishing_pattern
           phishing_type)) =
       Inr (state3 reset_mail [''older case one'', ''older case two''] phishing_pattern
              phishing_type phishing_summary)
   \<and> CuratorState.similar_cases (state3 reset_mail [''older case one'', ''older case two'']
        phishing_pattern phishing_type phishing_summary) =
       [''older case one'', ''older case two'']"
proof -
  let ?A = "answering phishing_pattern phishing_type phishing_summary"
  let ?cs = "[''older case one'', ''older case two'']"
  have r: "snd (analyze_case ?A 5 reset_mail ?cs) =
     Inr \<lparr>FraudAnalysis.is_fraud = True,
          fraud_type = ''PHISHING'',
          explanation = ''A mail asks for a password reset on a fake page'',
          similar_cases = ?cs,
          timestamp = 5,
          new_type_name = None\<rparr>"
    unfolding analyze_case_def run_phishing
    by (simp add: to_analysis_def subscript_reasoning_def subscript_fraud_type_def py_or_def
        state1_def state2_def state3_def phishing_pattern_def phishing_type_def
        phishing_summary_def)
  have e: "states_entered (fst (analyze_case ?A 5 reset_mail ?cs)) =
      [initial_state reset_mail ?cs, state1 reset_mail ?cs phishing_pattern,
       state2 reset_mail ?cs phishing_pattern phishing_type]"
    by (simp add: analyze_case_fst run_phishing)
  from similar_cases_are_echoed [of ?A 5 reset_mail ?cs] r e node_results_phishing [of ?cs]
  show ?thesis
    by (simp add: states_similar_cases)
qed

text \<open>
  C5, as stated, fails. The pattern agent reports fraud, the invocation of the type
  agent raises, and the analysis ends there: the summary agent is not invoked.
\<close>

theorem summary_agent_skipped_when_classification_fails:
  "pattern_agent (replying (Inr (dump_pattern phishing_pattern))
        (Inl (LLMError ''rate limit exceeded'')) (Inr (dump_summary phishing_summary)))
      (TextInput.text reset_mail) = Inr (dump_pattern phishing_pattern)
   \<and> PatternAnalysisOutput_validate (replying (Inr (dump_pattern phishing_pattern))
        (Inl (LLMError ''rate limit exceeded'')) (Inr (dump_summary phishing_summary)))
      (dump_pattern phishing_pattern) = Inr phishing_pattern
   \<and> PatternAnalysisOutput.is_fraud phishing_pattern
   \<and> agents_invoked (fst (analyze_case (replying (Inr (dump_pattern phishing_pattern))
        (Inl (LLMError ''rate limit exceeded'')) (Inr (dump_summary phishing_summary)))
        0 reset_mail [])) = [PatternAnalysisAgent, FraudTypeAgent]
   \<and> nodes_entered (fst (analyze_case (replying (Inr (dump_pattern phishing_pattern))
        (Inl (LLMError ''rate limit exceeded'')) (Inr (dump_summary phishing_summary)))
        0 reset_mail [])) = [''analyze_patterns'', ''classify_type'']
   \<and> snd (analyze_case (replying (Inr (dump_pattern phishing_pattern))
        (Inl (LLMError ''rate limit exceeded'')) (Inr (dump_summary phishing_summary)))
        0 reset_mail []) = Inl (LLMError ''rate limit exceeded'')"
  unfolding analyze_case_def invoke_initial
  by (simp add: replying_simps validate_dump_pattern Let_def phishing_pattern_def)

text \<open>
  C5, amended. No run enters a node twice or invokes an agent twice. When the pattern
  agent reports fraud, the run enters \<open>classify_type\<close> next and invokes the type agent
  once; if the classification gets through, it then enters \<open>generate_summary\<close> and
  invokes the summary agent once, and nothing else; if the classification fails, the run
  ends without the summary step.
\<close>

theorem fraud_path_runs_each_node_once:
  "distinct (nodes_entered (fst (analyze_case env now ti cases)))
   \<and> distinct (agents_invoked (fst (analyze_case env now ti cases)))
   \<and> (pattern_agent env (TextInput.text ti) = Inr raw
        \<and> PatternAnalysisOutput_validate env raw = Inr p
        \<and> PatternAnalysisOutput.is_fraud p
      \<longrightarrow> nodes_entered (fst (analyze_case env now ti cases)) =
            (if classification_succeeds env p cases
             then [''analyze_patterns'', ''classify_type'', ''generate_summary'']
             else [''analyze_patterns'', ''classify_type''])
          \<and> agents_invoked (fst (analyze_case env now ti cases)) =
            (if classification_succeeds env p cases
             then [PatternAnalysisAgent, FraudTypeAgent, SummaryAgent]
             else [PatternAnalysisAgent, FraudTypeAgent]))"
  unfolding analyze_case_fst invoke_initial
  by (simp add: Let_def classification_succeeds_def split: sum.splits)

text \<open>
  C5 amended, at scenario A.
\<close>

theorem fraud_path_runs_each_node_once_witness:
  "pattern_agent (answering phishing_pattern phishing_type phishing_summary)
      (TextInput.text reset_mail) = Inr (dump_pattern phishing_pattern)
   \<and> PatternAnalysisOutput_validate (answering phishing_pattern phishing_type phishing_summary)
      (dump_pattern phishing_pattern) = Inr phishing_pattern
   \<and> PatternAnalysisOutput.is_fraud phishing_pattern
   \<and> classification_succeeds (answering phishing_pattern phishing_type phishing_summary)
      phishing_pattern []
   \<and> nodes_entered (fst (analyze_case (answering phishing_pattern phishing_type phishing_summary)
        2 reset_mail [])) = [''analyze_patterns'', ''classify_type'', ''generate_summary'']
   \<and> agents_invoked (fst (analyze_case (answering phishing_pattern phishing_type phishing_summary)
        2 reset_mail [])) = [PatternAnalysisAgent, FraudTypeAgent, SummaryAgent]"
proof -
  let ?A = "answering phishing_pattern phishing_type phishing_summary"
  have a1: "pattern_agent ?A (TextInput.text reset_mail) = Inr (dump_pattern phishing_pattern)"
    and a2: "PatternAnalysisOutput_validate ?A (dump_pattern phishing_pattern) = Inr phishing_pattern"
    by (simp_all add: answer_defs)
  have a3: "PatternAnalysisOutput.is_fraud phishing_pattern"
    by (simp add: phishing_pattern_def)
  have a4: "classification_succeeds ?A phishing_pattern []"
    by (simp add: classification_succeeds_def answer_defs)
  from fraud_path_runs_each_node_once [of ?A 2 reset_mail "[]" "dump_pattern phishing_pattern"
      phishing_pattern] a1 a2 a3 a4
  show ?thesis by simp
qed

text \<open>
  C6. In every run of the workflow from the initial state, each state handed to a
  node and the terminal state have \<open>fraud_type\<close> and \<open>new_type_name\<close> populated only
  if \<open>is_fraud\<close> is set; every state after the first step carries the \<open>is_fraud\<close> the
  pattern analysis reported; \<open>classify_type\<close> and \<open>generate_summary\<close> never change
  \<open>is_fraud\<close>, \<open>generate_summary\<close> and \<open>analyze_patterns\<close> never change
  \<open>fraud_type\<close> or \<open>new_type_name\<close>.
\<close>

theorem is_fraud_set_once_and_types_only_for_fraud:
  "(\<forall>st \<in> set (states_entered
        (fst (invoke (create_curator_graph env) (initial_state ti cases)))).
      populated_only_if_fraud st)
   \<and> (\<forall>st. snd (invoke (create_curator_graph env) (initial_state ti cases)) = Inr st
         \<longrightarrow> populated_only_if_fraud st)
   \<and> (pattern_agent env (TextInput.text ti) = Inr raw
        \<and> PatternAnalysisOutput_validate env raw = Inr p
      \<longrightarrow> (\<forall>st \<in> set (tl (states_entered
                (fst (invoke (create_curator_graph env) (initial_state ti cases))))).
              CuratorState.is_fraud st = PatternAnalysisOutput.is_fraud p)
          \<and> (\<forall>st. snd (invoke (create_curator_graph env) (initial_state ti cases)) = Inr st
                \<longrightarrow> CuratorState.is_fraud st = PatternAnalysisOutput.is_fraud p))
   \<and> (\<forall>st st'. snd (classify_type env st) = Inr st'
         \<longrightarrow> CuratorState.is_fraud st' = CuratorState.is_fraud st)
   \<and> (\<forall>st st'. snd (generate_summary env st) = Inr st'
         \<longrightarrow> CuratorState.is_fraud st' = CuratorState.is_fraud st
             \<and> CuratorState.fraud_type st' = CuratorState.fraud_type st
             \<and> CuratorState.new_type_name st' = CuratorState.new_type_name st)
   \<and> (\<forall>st st'. snd (analyze_patterns env st) = Inr st'
         \<longrightarrow> CuratorState.fraud_type st' = CuratorState.fraud_type st
             \<and> CuratorState.new_type_name st' = CuratorState.new_type_name st)"
proof -
  have 1: "\<forall>st \<in> set (states_entered
        (fst (invoke (create_curator_graph env) (initial_state ti cases)))).
      populated_only_if_fraud st"
    by (simp add: states_entered_invariant)
  have 2: "\<forall>st. snd (invoke (create_curator_graph env) (initial_state ti cases)) = Inr st
         \<longrightarrow> populated_only_if_fraud st"
    by (simp add: terminal_state_invariant)
  have 3: "pattern_agent env (TextInput.text ti) = Inr raw
        \<and> PatternAnalysisOutput_validate env raw = Inr p
      \<longrightarrow> (\<forall>st \<in> set (tl (states_entered
                (fst (invoke (create_curator_graph env) (initial_state ti cases))))).
              CuratorState.is_fraud st = PatternAnalysisOutput.is_fraud p)
          \<and> (\<forall>st. snd (invoke (create_curator_graph env) (initial_state ti cases)) = Inr st
                \<longrightarrow> CuratorState.is_fraud st = PatternAnalysisOutput.is_fraud p)"
    using later_states_keep_is_fraud [of env ti raw p cases] by blast
  have 4: "\<forall>st st'. snd (classify_type env st) = Inr st'
         \<longrightarrow> CuratorState.is_fraud st' = CuratorState.is_fraud st"
    using classify_type_frame by blast
  have 5: "\<forall>st st'. snd (generate_summary env st) = Inr st'
         \<longrightarrow> CuratorState.is_fraud st' = CuratorState.is_fraud st
             \<and> CuratorState.fraud_type st' = CuratorState.fraud_type st
             \<and> CuratorState.new_type_name st' = CuratorState.new_type_name st"
    using generate_summary_frame by blast
  have 6: "\<forall>st st'. snd (analyze_patterns env st) = Inr st'
         \<longrightarrow> CuratorState.fraud_type st' = CuratorState.fraud_type st
             \<and> CuratorState.new_type_name st' = CuratorState.new_type_name st"
    using analyze_patterns_frame by blast
  from 1 2 3 4 5 6 show ?thesis by (intro conjI)
qed

text \<open>
  C6 at scenario C.
\<close>

theorem is_fraud_set_once_and_types_only_for_fraud_witness:
  "states_entered (fst (invoke
       (create_curator_graph (answering phishing_pattern novel_type phishing_summary))
       (initial_state reset_mail []))) =
     [initial_state reset_mail [], state1 reset_mail [] phishing_pattern,
      state2 reset_mail [] phishing_pattern novel_type]
   \<and> snd (invoke (create_curator_graph (answering phishing_pattern novel_type phishing_summary))
       (initial_state reset_mail [])) =
     Inr (state3 reset_mail [] phishing_pattern novel_type phishing_summary)
   \<and> populated_only_if_fraud (initial_state reset_mail [])
   \<and> populated_only_if_fraud (state1 reset_mail [] phishing_pattern)
   \<and> populated_only_if_fraud (state2 reset_mail [] phishing_pattern novel_type)
   \<and> populated_only_if_fraud (state3 reset_mail [] phishing_pattern novel_type phishing_summary)
   \<and> CuratorState.new_type_name (state3 reset_mail [] phishing_pattern novel_type
        phishing_summary) = Some ''SYNTHETIC IDENTITY LOAN STACKING''
   \<and> CuratorState.is_fraud (state3 reset_mail [] phishing_pattern novel_type phishing_summary)
   \<and> CuratorState.is_fraud (state2 reset_mail [] phishing_pattern novel_type) =
       PatternAnalysisOutput.is_fraud phishing_pattern
   \<and> snd (classify_type (answering phishing_pattern novel_type phishing_summary)
        (state1 reset_mail [] phishing_pattern)) =
       Inr (state2 reset_mail [] phishing_pattern novel_type)
   \<and> snd (generate_summary (answering phishing_pattern novel_type phishing_summary)
        (state2 reset_mail [] phishing_pattern novel_type)) =
       Inr (state3 reset_mail [] phishing_pattern novel_type phishing_summary)
   \<and> snd (analyze_patterns (answering phishing_pattern novel_type phishing_summary)
        (initial_state reset_mail [])) = Inr (state1 reset_mail [] phishing_pattern)"
proof -
  let ?N = "answering phishing_pattern novel_type phishing_summary"
  have n1: "pattern_agent ?N (TextInput.text reset_mail) = Inr (dump_pattern phishing_pattern)"
    and n2: "PatternAnalysisOutput_validate ?N (dump_pattern phishing_pattern) = Inr phishing_pattern"
    by (simp_all add: answer_defs)
  have nm: "CuratorState.new_type_name (state3 reset_mail [] phishing_pattern novel_type
        phishing_summary) = Some ''SYNTHETIC IDENTITY LOAN STACKING''"
    by (simp add: state3_def state2_def novel_type_def)
  from is_fraud_set_once_and_types_only_for_fraud [of ?N reset_mail "[]"
      "dump_pattern phishing_pattern" phishing_pattern] n1 n2 nm
    run_novel [of "[]"] node_results_novel [of "[]"]
  show ?thesis by (simp add: phishing_pattern_def)
qed



text \<open>
  C8. If the answer of the agent fails validation at \<open>analyze_patterns\<close>, at
  \<open>classify_type\<close> or at \<open>generate_summary\<close>, that node raises a \<open>ValueError\<close>
  whose message names the agent and carries the text of the validation error; the case
  analysis is aborted there: the run holds nothing after the invocation of that agent
  (no later node is entered, no later agent is invoked, nothing more is printed); and
  \<open>analyze_case\<close> returns no \<open>FraudAnalysis\<close> but that \<open>ValueError\<close>.
\<close>

theorem validation_failure_aborts:
  "(pattern_agent env (TextInput.text ti) = Inr r1
      \<and> PatternAnalysisOutput_validate env r1 = Inl m1
    \<longrightarrow> snd (analyze_patterns env (initial_state ti cases)) =
          Inl (ValueError (''Error al validar el resultado de PatternAnalysisAgent: '' @ m1))
        \<and> snd (analyze_case env now ti cases) =
          Inl (ValueError (''Error al validar el resultado de PatternAnalysisAgent: '' @ m1))
        \<and> fst (analyze_case env now ti cases) =
          [Enter ''analyze_patterns'' (initial_state ti cases), Invoke PatternAnalysisAgent])
   \<and> (pattern_agent env (TextInput.text ti) = Inr r1
      \<and> PatternAnalysisOutput_validate env r1 = Inr p
      \<and> PatternAnalysisOutput.is_fraud p
      \<and> type_agent env (Some p) cases = Inr r2
      \<and> FraudTypeOutput_validate env r2 = Inl m2
    \<longrightarrow> snd (classify_type env (state1 ti cases p)) =
          Inl (ValueError (''Error al validar el resultado de FraudTypeAgent: '' @ m2))
        \<and> snd (analyze_case env now ti cases) =
          Inl (ValueError (''Error al validar el resultado de FraudTypeAgent: '' @ m2))
        \<and> fst (analyze_case env now ti cases) =
          [Enter ''analyze_patterns'' (initial_state ti cases), Invoke PatternAnalysisAgent,
           Enter ''classify_type'' (state1 ti cases p), Invoke FraudTypeAgent])
   \<and> (pattern_agent env (TextInput.text ti) = Inr r1
      \<and> PatternAnalysisOutput_validate env r1 = Inr p
      \<and> PatternAnalysisOutput.is_fraud p
      \<and> type_agent env (Some p) cases = Inr r2
      \<and> FraudTypeOutput_validate env r2 = Inr t
      \<and> summary_agent env (Some p) (Some t) = Inr r3
      \<and> FraudSummaryOutput_validate env r3 = Inl m3
    \<longrightarrow> snd (generate_summary env (state2 ti cases p t)) =
          Inl (ValueError (''Error al validar el resultado de SummaryAgent: '' @ m3))
        \<and> snd (analyze_case env now ti cases) =
          Inl (ValueError (''Error al validar el resultado de SummaryAgent: '' @ m3))
        \<and> fst (analyze_case env now ti cases) =
          [Enter ''analyze_patterns'' (initial_state ti cases), Invoke PatternAnalysisAgent,
           Enter ''classify_type'' (state1 ti cases p), Invoke FraudTypeAgent,
           Print_state ''State after classify: '' (state2 ti cases p t),
           Enter ''generate_summary'' (state2 ti cases p t), Invoke SummaryAgent])"
proof -
  have nodes:
    "pattern_agent env (TextInput.text ti) = Inr r1
       \<and> PatternAnalysisOutput_validate env r1 = Inl m1
     \<longrightarrow> snd (analyze_patterns env (initial_state ti cases)) =
          Inl (ValueError (''Error al validar el resultado de PatternAnalysisAgent: '' @ m1))"
    "type_agent env (Some p) cases = Inr r2 \<and> FraudTypeOutput_validate env r2 = Inl m2
     \<longrightarrow> snd (classify_type env (state1 ti cases p)) =
          Inl (ValueError (''Error al validar el resultado de FraudTypeAgent: '' @ m2))"
    "summary_agent env (Some p) (Some t) = Inr r3 \<and> FraudSummaryOutput_validate env r3 = Inl m3
     \<longrightarrow> snd (generate_summary env (state2 ti cases p t)) =
          Inl (ValueError (''Error al validar el resultado de SummaryAgent: '' @ m3))"
    by (simp_all add: analyze_patterns_def classify_type_def generate_summary_def analyze_def
        classify_def summarize_def agent_call_simp state1_def state2_def initial_state_def)
  have runs:
    "pattern_agent env (TextInput.text ti) = Inr r1
       \<and> PatternAnalysisOutput_validate env r1 = Inl m1
     \<longrightarrow> analyze_case env now ti cases =
          ([Enter ''analyze_patterns'' (initial_state ti cases), Invoke PatternAnalysisAgent],
           Inl (ValueError (''Error al validar el resultado de PatternAnalysisAgent: '' @ m1)))"
    "pattern_agent env (TextInput.text ti) = Inr r1
       \<and> PatternAnalysisOutput_validate env r1 = Inr p
       \<and> PatternAnalysisOutput.is_fraud p
       \<and> type_agent env (Some p) cases = Inr r2
       \<and> FraudTypeOutput_validate env r2 = Inl m2
     \<longrightarrow> analyze_case env now ti cases =
          ([Enter ''analyze_patterns'' (initial_state ti cases), Invoke PatternAnalysisAgent,
            Enter ''classify_type'' (state1 ti cases p), Invoke FraudTypeAgent],
           Inl (ValueError (''Error al validar el resultado de FraudTypeAgent: '' @ m2)))"
    "pattern_agent env (TextInput.text ti) = Inr r1
       \<and> PatternAnalysisOutput_validate env r1 = Inr p
       \<and> PatternAnalysisOutput.is_fraud p
       \<and> type_agent env (Some p) cases = Inr r2
       \<and> FraudTypeOutput_validate env r2 = Inr t
       \<and> summary_agent env (Some p) (Some t) = Inr r3
       \<and> FraudSummaryOutput_validate env r3 = Inl m3
     \<longrightarrow> analyze_case env now ti cases =
          ([Enter ''analyze_patterns'' (initial_state ti cases), Invoke PatternAnalysisAgent,
            Enter ''classify_type'' (state1 ti cases p), Invoke FraudTypeAgent,
            Print_state ''State after classify: '' (state2 ti cases p t),
            Enter ''generate_summary'' (state2 ti cases p t), Invoke SummaryAgent],
           Inl (ValueError (''Error al validar el resultado de SummaryAgent: '' @ m3)))"
    unfolding analyze_case_def invoke_initial
    by (simp_all add: Let_def)
  from nodes runs show ?thesis by simp
qed

text \<open>
  C8 at an answer that fails validation, for each of the three agents: \<open>None\<close> from
  the pattern agent, a classification without its explanation from the type agent, a
  bare string from the summary agent.
\<close>

theorem validation_failure_aborts_witness:
  "isl (PatternAnalysisOutput_validate
      (replying (Inr no_dictionary) (Inr (dump_type phishing_type))
         (Inr (dump_summary phishing_summary))) no_dictionary)
   \<and> (\<exists>m. snd (analyze_case
        (replying (Inr no_dictionary) (Inr (dump_type phishing_type))
           (Inr (dump_summary phishing_summary))) 0 reset_mail []) =
        Inl (ValueError (''Error al validar el resultado de PatternAnalysisAgent: '' @ m)))
   \<and> fst (analyze_case
        (replying (Inr no_dictionary) (Inr (dump_type phishing_type))
           (Inr (dump_summary phishing_summary))) 0 reset_mail []) =
       [Enter ''analyze_patterns'' (initial_state reset_mail []), Invoke PatternAnalysisAgent]
   \<and> PatternAnalysisOutput.is_fraud phishing_pattern
   \<and> isl (FraudTypeOutput_validate
      (replying (Inr (dump_pattern phishing_pattern)) (Inr type_without_explanation)
         (Inr (dump_summary phishing_summary))) type_without_explanation)
   \<and> (\<exists>m. snd (analyze_case
        (replying (Inr (dump_pattern phishing_pattern)) (Inr type_without_explanation)
           (Inr (dump_summary phishing_summary))) 0 reset_mail []) =
        Inl (ValueError (''Error al validar el resultado de FraudTypeAgent: '' @ m)))
   \<and> fst (analyze_case
        (replying (Inr (dump_pattern phishing_pattern)) (Inr type_without_explanation)
           (Inr (dump_summary phishing_summary))) 0 reset_mail []) =
       [Enter ''analyze_patterns'' (initial_state reset_mail []), Invoke PatternAnalysisAgent,
        Enter ''classify_type'' (state1 reset_mail [] phishing_pattern), Invoke FraudTypeAgent]
   \<and> isl (FraudSummaryOutput_validate
      (replying (Inr (dump_pattern phishing_pattern)) (Inr (dump_type phishing_type))
         (Inr summary_as_text)) summary_as_text)
   \<and> (\<exists>m. snd (analyze_case
        (replying (Inr (dump_pattern phishing_pattern)) (Inr (dump_type phishing_type))
           (Inr summary_as_text)) 0 reset_mail []) =
        Inl (ValueError (''Error al validar el resultado de SummaryAgent: '' @ m)))
   \<and> fst (analyze_case
        (replying (Inr (dump_pattern phishing_pattern)) (Inr (dump_type phishing_type))
           (Inr summary_as_text)) 0 reset_mail []) =
       [Enter ''analyze_patterns'' (initial_state reset_mail []), Invoke PatternAnalysisAgent,
        Enter ''classify_type'' (state1 reset_mail [] phishing_pattern), Invoke FraudTypeAgent,
        Print_state ''State after classify: ''
          (state2 reset_mail [] phishing_pattern phishing_type),
        Enter ''generate_summary'' (state2 reset_mail [] phishing_pattern phishing_type),
        Invoke SummaryAgent]"
proof -
  let ?E1 = "replying (Inr no_dictionary) (Inr (dump_type phishing_type))
         (Inr (dump_summary phishing_summary))"
  let ?E2 = "replying (Inr (dump_pattern phishing_pattern)) (Inr type_without_explanation)
         (Inr (dump_summary phishing_summary))"
  let ?E3 = "replying (Inr (dump_pattern phishing_pattern)) (Inr (dump_type phishing_type))
         (Inr summary_as_text)"
  let ?m1 = "ValidationError_text ''PatternAnalysisOutput'' no_dictionary"
  let ?m2 = "ValidationError_text ''FraudTypeOutput'' type_without_explanation"
  let ?m3 = "ValidationError_text ''FraudSummaryOutput'' summary_as_text"
  have f: "PatternAnalysisOutput.is_fraud phishing_pattern"
    by (simp add: phishing_pattern_def)
  have a1: "pattern_agent ?E1 (TextInput.text reset_mail) = Inr no_dictionary"
    and a2: "PatternAnalysisOutput_validate ?E1 no_dictionary = Inl ?m1"
    by (simp_all add: replying_simps PatternAnalysisOutput_model_validate_def
        PatternAnalysisOutput_fields_def no_dictionary_def)
  have b1: "pattern_agent ?E2 (TextInput.text reset_mail) = Inr (dump_pattern phishing_pattern)"
    and b2: "PatternAnalysisOutput_validate ?E2 (dump_pattern phishing_pattern) =
      Inr phishing_pattern"
    and b3: "type_agent ?E2 (Some phishing_pattern) [] = Inr type_without_explanation"
    and b4: "FraudTypeOutput_validate ?E2 type_without_explanation = Inl ?m2"
    by (simp_all add: replying_simps validate_dump_pattern FraudTypeOutput_model_validate_def
        FraudTypeOutput_fields_def type_without_explanation_def required_def)
  have c1: "pattern_agent ?E3 (TextInput.text reset_mail) = Inr (dump_pattern phishing_pattern)"
    and c2: "PatternAnalysisOutput_validate ?E3 (dump_pattern phishing_pattern) =
      Inr phishing_pattern"
    and c3: "type_agent ?E3 (Some phishing_pattern) [] = Inr (dump_type phishing_type)"
    and c4: "FraudTypeOutput_validate ?E3 (dump_type phishing_type) = Inr phishing_type"
    and c5: "summary_agent ?E3 (Some phishing_pattern) (Some phishing_type) = Inr summary_as_text"
    and c6: "FraudSummaryOutput_validate ?E3 summary_as_text = Inl ?m3"
    by (simp_all add: replying_simps validate_dump_pattern validate_dump_type
        FraudSummaryOutput_model_validate_def FraudSummaryOutput_fields_def summary_as_text_def)
  from validation_failure_aborts [of ?E1 reset_mail no_dictionary ?m1 "[]" 0] a1 a2
  have r1: "snd (analyze_case ?E1 0 reset_mail []) =
       Inl (ValueError (''Error al validar el resultado de PatternAnalysisAgent: '' @ ?m1))"
    and e1: "fst (analyze_case ?E1 0 reset_mail []) =
       [Enter ''analyze_patterns'' (initial_state reset_mail []), Invoke PatternAnalysisAgent]"
    by simp_all
  from validation_failure_aborts [of ?E2 reset_mail "dump_pattern phishing_pattern" _ "[]" 0
      phishing_pattern type_without_explanation ?m2] b1 b2 b3 b4 f
  have r2: "snd (analyze_case ?E2 0 reset_mail []) =
       Inl (ValueError (''Error al validar el resultado de FraudTypeAgent: '' @ ?m2))"
    and e2: "fst (analyze_case ?E2 0 reset_mail []) =
       [Enter ''analyze_patterns'' (initial_state reset_mail []), Invoke PatternAnalysisAgent,
        Enter ''classify_type'' (state1 reset_mail [] phishing_pattern), Invoke FraudTypeAgent]"
    by simp_all
  from validation_failure_aborts [of ?E3 reset_mail "dump_pattern phishing_pattern" _ "[]" 0
      phishing_pattern "dump_type phishing_type" _ phishing_type summary_as_text ?m3]
    c1 c2 c3 c4 c5 c6 f
  have r3: "snd (analyze_case ?E3 0 reset_mail []) =
       Inl (ValueError (''Error al validar el resultado de SummaryAgent: '' @ ?m3))"
    and e3: "fst (analyze_case ?E3 0 reset_mail []) =
       [Enter ''analyze_patterns'' (initial_state reset_mail []), Invoke PatternAnalysisAgent,
        Enter ''classify_type'' (state1 reset_mail [] phishing_pattern), Invoke FraudTypeAgent,
        Print_state ''State after classify: ''
          (state2 reset_mail [] phishing_pattern phishing_type),
        Enter ''generate_summary'' (state2 reset_mail [] phishing_pattern phishing_type),
        Invoke SummaryAgent]"
    by simp_all
  from a2 b4 c6 have v: "isl (PatternAnalysisOutput_validate ?E1 no_dictionary)"
    "isl (FraudTypeOutput_validate ?E2 type_without_explanation)"
    "isl (FraudSummaryOutput_validate ?E3 summary_as_text)"
    by simp_all
  from r1 r2 r3 have x:
    "\<exists>m. snd (analyze_case ?E1 0 reset_mail []) =
        Inl (ValueError (''Error al validar el resultado de PatternAnalysisAgent: '' @ m))"
    "\<exists>m. snd (analyze_case ?E2 0 reset_mail []) =
        Inl (ValueError (''Error al validar el resultado de FraudTypeAgent: '' @ m))"
    "\<exists>m. snd (analyze_case ?E3 0 reset_mail []) =
        Inl (ValueError (''Error al validar el resultado de SummaryAgent: '' @ m))"
    by blast+
  from v x e1 e2 e3 f show ?thesis by (intro conjI)
qed

text \<open>
  C9, as stated, fails. An invocation of the pattern agent that raises leaves
  \<open>analyze\<close>, and \<open>analyze_case\<close>, with the exception of the invocation itself; no
  response is printed or attached. A response matching no schema is returned by the agent
  as its result: handling it raises nothing.
\<close>

theorem failures_propagate_without_the_response:
  "analyze (pattern_agent (replying (Inl (LLMError ''connection reset''))
        (Inr (dump_type phishing_type)) (Inr (dump_summary phishing_summary))))
      (TextInput.text reset_mail) =
     ([Invoke PatternAnalysisAgent], Inl (LLMError ''connection reset''))
   \<and> analyze_case (replying (Inl (LLMError ''connection reset''))
        (Inr (dump_type phishing_type)) (Inr (dump_summary phishing_summary))) 0 reset_mail [] =
     ([Enter ''analyze_patterns'' (initial_state reset_mail []), Invoke PatternAnalysisAgent],
      Inl (LLMError ''connection reset''))
   \<and> analyze (pattern_agent (replying (Inr PyNone)
        (Inr (dump_type phishing_type)) (Inr (dump_summary phishing_summary))))
      (TextInput.text reset_mail) =
     ([Invoke PatternAnalysisAgent], Inr PyNone)"
  unfolding analyze_case_def invoke_initial
  by (simp add: analyze_def agent_call_simp replying_simps)

text \<open>
  C9, amended. \<open>_validate_and_parse_response\<close> never raises and prints nothing: it
  returns the response it is given. An agent's method therefore returns exactly what the
  invocation of its model returned, and raises exactly what that invocation raised.
\<close>

theorem validate_and_parse_response_is_identity:
  "validate_and_parse_response r = ([], Inr r)
   \<and> agent_call a (Inl e) = ([Invoke a], Inl e)
   \<and> agent_call a (Inr r) = ([Invoke a], Inr r)
   \<and> analyze llm1 txt = ([Invoke PatternAnalysisAgent], llm1 txt)
   \<and> classify llm2 pa cases = ([Invoke FraudTypeAgent], llm2 pa cases)
   \<and> summarize llm3 pa ft = ([Invoke SummaryAgent], llm3 pa ft)"
  by (simp add: validate_and_parse_response_def try_return_def agent_call_simp analyze_def
      classify_def summarize_def)

text \<open>
  C10. If the workflow ends in a state with the fraud flag set and the empty string as
  \<open>final_summary\<close>, \<open>analyze_case\<close> returns a result, and its explanation is the
  reasoning of the pattern analysis held in that state.
\<close>

theorem empty_summary_falls_back_to_reasoning:
  assumes "snd (invoke (create_curator_graph env) (initial_state ti cases)) = Inr st"
    and "CuratorState.is_fraud st"
    and "final_summary st = Some []"
  shows "\<exists>fa p. snd (analyze_case env now ti cases) = Inr fa
           \<and> pattern_analysis st = Some p
           \<and> FraudAnalysis.explanation fa = reasoning p"
  using assms
  unfolding analyze_case_def invoke_initial
  by (auto simp add: to_analysis_def subscript_reasoning_def subscript_fraud_type_def py_or_def
      state1_def state2_def state3_def Let_def split: sum.splits if_splits)

text \<open>
  C10 at a summary agent that answers with an empty summary.
\<close>

theorem empty_summary_falls_back_to_reasoning_witness:
  "snd (invoke (create_curator_graph (answering phishing_pattern novel_type empty_summary))
       (initial_state reset_mail [''an older case''])) =
     Inr (state3 reset_mail [''an older case''] phishing_pattern novel_type empty_summary)
   \<and> CuratorState.is_fraud
       (state3 reset_mail [''an older case''] phishing_pattern novel_type empty_summary)
   \<and> final_summary
       (state3 reset_mail [''an older case''] phishing_pattern novel_type empty_summary) = Some []
   \<and> pattern_analysis
       (state3 reset_mail [''an older case''] phishing_pattern novel_type empty_summary) =
       Some phishing_pattern
   \<and> snd (analyze_case (answering phishing_pattern novel_type empty_summary) 9 reset_mail
        [''an older case'']) =
     Inr \<lparr>FraudAnalysis.is_fraud = True,
          fraud_type = ''NEW'',
          explanation = reasoning phishing_pattern,
          similar_cases = [''an older case''],
          timestamp = 9,
          new_type_name = Some ''SYNTHETIC IDENTITY LOAN STACKING''\<rparr>"
proof -
  let ?E = "answering phishing_pattern novel_type empty_summary"
  let ?s = "state3 reset_mail [''an older case''] phishing_pattern novel_type empty_summary"
  have h1: "snd (invoke (create_curator_graph ?E) (initial_state reset_mail [''an older case'']))
      = Inr ?s"
    unfolding invoke_initial
    by (simp add: answer_defs Let_def phishing_pattern_def)
  have h2: "CuratorState.is_fraud ?s"
    by (simp add: state3_def state2_def state1_def phishing_pattern_def)
  have h3: "final_summary ?s = Some []"
    by (simp add: state3_def empty_summary_def)
  have h4: "pattern_analysis ?s = Some phishing_pattern"
    by (simp add: state3_def state2_def state1_def)
  have r: "snd (analyze_case ?E 9 reset_mail [''an older case'']) =
     Inr \<lparr>FraudAnalysis.is_fraud = True,
          fraud_type = ''NEW'',
          explanation = reasoning phishing_pattern,
          similar_cases = [''an older case''],
          timestamp = 9,
          new_type_name = Some ''SYNTHETIC IDENTITY LOAN STACKING''\<rparr>"
    unfolding analyze_case_def invoke_initial
    by (simp add: answer_defs run_defs phishing_pattern_def novel_type_def empty_summary_def)
  from empty_summary_falls_back_to_reasoning [OF h1 h2 h3, of 9] h1 h2 h3 h4 r
  show ?thesis by simp
qed

end
